theory Spec2Isabelle
  imports Complex_Main "HOL-Library.Word"
begin

section \<open>JavaScript values used by the interview client\<close>

text \<open>
  The client is JavaScript: \<^verbatim>\<open>frontend/src/services/api.js\<close> (the session channel) and
  \<^verbatim>\<open>frontend/src/pages/InterviewPage.jsx\<close> (the interview page). Values that arrive from
  the network are dynamically typed, so they are modelled as JSON trees; \<open>undefined\<close> is
  \<open>None\<close> of \<open>json option\<close>. An object is an association list read with \<open>map_of\<close>.
\<close>

datatype json =
    JNull
  | JBool bool
  | JNum real
  | JStr string
  | JArr "json list"
  | JObj "(string \<times> json) list"

datatype js_error = TypeError | SyntaxError | RangeError | NotSupportedError | IndexSizeError

text \<open>Property read \<open>v.k\<close>: a \<open>TypeError\<close> on \<open>null\<close>, \<open>undefined\<close> where the property is absent.
  None of the names read by the client (\<open>type\<close>, \<open>text\<close>, \<open>message\<close>, \<open>strikes\<close>,
  \<open>terminated\<close>, \<open>warning_message\<close>) exists on a number, boolean, string or array.\<close>

fun get_prop :: "json \<Rightarrow> string \<Rightarrow> js_error + json option" where
  "get_prop JNull k = Inl TypeError"
| "get_prop (JObj kvs) k = Inr (map_of kvs k)"
| "get_prop v k = Inr None"

text \<open>JavaScript truthiness, as used by \<open>if (result.strikes)\<close> and \<open>a || b\<close>.\<close>

fun truthy :: "json option \<Rightarrow> bool" where
  "truthy None = False"
| "truthy (Some JNull) = False"
| "truthy (Some (JBool b)) = b"
| "truthy (Some (JNum x)) = (x \<noteq> 0)"
| "truthy (Some (JStr s)) = (s \<noteq> [])"
| "truthy (Some (JArr xs)) = True"
| "truthy (Some (JObj kvs)) = True"

text \<open>\<open>eventType.replace('_', ' ')\<close>: only the first underscore is replaced.\<close>

fun replace_underscore :: "string \<Rightarrow> string" where
  "replace_underscore [] = []"
| "replace_underscore (c # cs) =
     (if c = CHR ''_'' then CHR '' '' # cs else c # replace_underscore cs)"

type_synonym byte = "8 word"
type_synonym int16 = "16 word"
type_synonym float32 = "32 word"

text \<open>The console: one constructor for each \<open>console.log/warn/error/debug\<close> call of the two
  files, in source order.\<close>

datatype log =
    LogWsConnected
  | LogUnknownMessageType json
  | ErrFailedToParse js_error
  | ErrWebSocketError
  | LogWsClosed nat
  | ErrMediaDevices
  | ErrWebSocketMsg "json option"
  | ErrCannotStartCapture
  | LogCaptureStarted
  | ErrFailedToPlay js_error
  | LogFaceDetectionInit
  | WarnFaceDetectorFailed
  | WarnFaceDetectorMissing
  | WarnTabSwitched
  | WarnWindowBlur
  | WarnNoFace
  | WarnMultipleFaces
  | DebugFaceDetectionError
  | WarnRightClick
  | WarnCopyAttempt
  | LogReporting string real
  | ErrCheatingReport
  | ErrFailedToEnd

section \<open>The WebSocket object (api.js)\<close>

datatype ready_state = CONNECTING | OPEN | CLOSING | CLOSED

text \<open>What has been handed to \<open>ws.send\<close>: a text message or a binary one. The only binary
  payload the client ever builds is the buffer of a \<open>Float32Array\<close>, kept here as its
  32-bit elements.\<close>

datatype wire = WText string | WBinary "float32 list"

record socket =
  readyState :: ready_state
  transmitted :: "wire list"

datatype payload = PString string | PValue json

text \<open>
  \<^verbatim>\<open>
  send: (data) => {
    if (ws.readyState === WebSocket.OPEN) {
      ws.send(typeof data === 'string' ? data : JSON.stringify(data));
    }
  },
  sendAudio: (audioData) => {
    if (ws.readyState === WebSocket.OPEN) { ws.send(audioData); }
  },
  close: () => ws.close(),
  \<close>
  \<open>JSON.stringify\<close> is the platform's; it is a parameter, \<open>None\<close> where it throws.
\<close>

definition send :: "(json \<Rightarrow> string option) \<Rightarrow> payload \<Rightarrow> socket \<Rightarrow> js_error + socket" where
  "send stringify data ws =
     (if readyState ws = OPEN then
        (case data of
           PString str \<Rightarrow> Inr (ws\<lparr>transmitted := transmitted ws @ [WText str]\<rparr>)
         | PValue v \<Rightarrow>
             (case stringify v of
                None \<Rightarrow> Inl TypeError
              | Some str \<Rightarrow> Inr (ws\<lparr>transmitted := transmitted ws @ [WText str]\<rparr>)))
      else Inr ws)"

definition sendAudio :: "float32 list \<Rightarrow> socket \<Rightarrow> js_error + socket" where
  "sendAudio audioData ws =
     (if readyState ws = OPEN
      then Inr (ws\<lparr>transmitted := transmitted ws @ [WBinary audioData]\<rparr>)
      else Inr ws)"

text \<open>\<open>ws.close()\<close> of the platform: an open or connecting socket starts closing, a closing
  or closed one is left alone.\<close>

definition close :: "socket \<Rightarrow> socket" where
  "close ws =
     (if readyState ws = CONNECTING \<or> readyState ws = OPEN
      then ws\<lparr>readyState := CLOSING\<rparr> else ws)"

section \<open>The interview page state (InterviewPage.jsx)\<close>

datatype status = StConnecting | StConnected | StDisconnected | StError

text \<open>The warning toast: \<open>null\<close>, a value taken from a message, or the template string
  \<open>Strike ${result.strikes}/2: ${eventType.replace('_', ' ')}\<close> kept by its two holes.\<close>

datatype warning_text =
    NoWarning
  | WarnValue "json option"
  | WarnStrike "json option" string

record audio_context =
  sampleRate :: nat
  closed_ctx :: bool

text \<open>A \<open>ScriptProcessorNode\<close> with the source feeding it, as stored in
  \<open>mediaRecorderRef\<close>.\<close>

record processor =
  bufferSize :: nat
  inputChannels :: nat
  outputChannels :: nat
  contextRate :: nat
  connected_node :: bool

text \<open>One \<open>source.start(startTime)\<close> of playback, with the converted samples.\<close>

record scheduled_frame =
  startTime :: real
  samples :: "real list"

text \<open>One \<open>reportCheating\<close> request. Of \<open>details\<close> the wall-clock \<open>timestamp\<close> string is
  left out.\<close>

record report =
  event_type :: string
  confidence :: real
  details :: "(string \<times> json) list"

text \<open>
  The state hooks and refs of the component, and what it has sent out. \<open>terminated\<close> is
  the state hook. The event listeners and the face poll are registered by effects with
  the dependency list \<open>[terminated]\<close>, so each reads the \<open>terminated\<close> of the render that
  registered it: \<open>registeredTerminated\<close> is that captured value, which follows the hook only
  when React runs the effects again. \<open>pollsInFlight\<close> counts the face polls that have
  passed their guard and wait for the detector.
\<close>

record page =
  status :: status
  strikes :: "json option"
  warning :: warning_text
  transcript :: "json option list"
  isRecording :: bool
  terminated :: bool
  registeredTerminated :: bool
  hasVideo :: bool
  wsRef :: "socket option"
  streamRef :: "bool option"
  audioContextRef :: "audio_context option"
  processors :: "processor list"
  nextStartTime :: real
  scheduled :: "scheduled_frame list"
  tabSwitchCount :: nat
  lastFaceDetected :: int
  hasFaceDetector :: bool
  pollsInFlight :: nat
  reports :: "report list"
  endRequests :: "bool list"
  completions :: "bool list"
  console :: "log list"

definition log_to :: "log \<Rightarrow> page \<Rightarrow> page" where
  "log_to l s = s\<lparr>console := console s @ [l]\<rparr>"


text \<open>An uncaught exception leaves an event handler; the state stays as the handler found it
  (in the handlers below every throw comes before the handler's first write).\<close>

definition settle :: "page \<Rightarrow> js_error + page \<Rightarrow> page" where
  "settle s r = (case r of Inl e \<Rightarrow> s | Inr s' \<Rightarrow> s')"

section \<open>createInterviewWebSocket (api.js)\<close>

text \<open>The callbacks object: every field is optional and is called as \<open>callbacks.onX?.(arg)\<close>.\<close>

record callbacks =
  onConnected :: "(json option \<Rightarrow> page \<Rightarrow> js_error + page) option"
  onTranscript :: "(json option \<Rightarrow> page \<Rightarrow> js_error + page) option"
  onAudio :: "(byte list \<Rightarrow> page \<Rightarrow> js_error + page) option"
  onWarning :: "(json \<Rightarrow> page \<Rightarrow> js_error + page) option"
  onTerminated :: "(json \<Rightarrow> page \<Rightarrow> js_error + page) option"
  onError :: "(json option \<Rightarrow> page \<Rightarrow> js_error + page) option"
  onDisconnected :: "(nat \<Rightarrow> page \<Rightarrow> js_error + page) option"

definition call_opt :: "('a \<Rightarrow> page \<Rightarrow> js_error + page) option \<Rightarrow> 'a \<Rightarrow> page \<Rightarrow> js_error + page" where
  "call_opt cb a s = (case cb of None \<Rightarrow> Inr s | Some f \<Rightarrow> f a s)"

datatype inbound = Blob "byte list" | Text string

text \<open>
  \<^verbatim>\<open>
  ws.onopen = () => { console.log('WebSocket connected'); callbacks.onConnected?.(); };
  \<close>
\<close>

definition ws_onopen :: "callbacks \<Rightarrow> page \<Rightarrow> js_error + page" where
  "ws_onopen cbs s = call_opt (onConnected cbs) None (log_to LogWsConnected s)"

text \<open>
  \<^verbatim>\<open>
  ws.onmessage = (event) => {
    if (event.data instanceof Blob) {
      callbacks.onAudio?.(event.data);
    } else {
      try {
        const data = JSON.parse(event.data);
        switch (data.type) {
          case 'connected':  callbacks.onConnected?.(data); break;
          case 'transcript': callbacks.onTranscript?.(data.text); break;
          case 'warning':    callbacks.onWarning?.(data); break;
          case 'terminated': callbacks.onTerminated?.(data); break;
          case 'error':      callbacks.onError?.(data.message); break;
          default: console.log('Unknown message type:', data);
        }
      } catch (e) { console.error('Failed to parse message:', e); }
    }
  };
  \<close>
  \<open>JSON.parse\<close> is the platform's and is a parameter: \<open>None\<close> is its \<open>SyntaxError\<close>.
  \<open>dispatch\<close> is the body of the \<open>try\<close> block.
\<close>

definition dispatch :: "(string \<Rightarrow> json option) \<Rightarrow> callbacks \<Rightarrow> string \<Rightarrow> page \<Rightarrow> js_error + page" where
  "dispatch parse cbs txt s =
     (case parse txt of
        None \<Rightarrow> Inl SyntaxError
      | Some data \<Rightarrow>
          (case get_prop data ''type'' of
             Inl e \<Rightarrow> Inl e
           | Inr ty \<Rightarrow>
               if ty = Some (JStr ''connected'') then call_opt (onConnected cbs) (Some data) s
               else if ty = Some (JStr ''transcript'') then
                 (case get_prop data ''text'' of
                    Inl e \<Rightarrow> Inl e | Inr x \<Rightarrow> call_opt (onTranscript cbs) x s)
               else if ty = Some (JStr ''warning'') then call_opt (onWarning cbs) data s
               else if ty = Some (JStr ''terminated'') then call_opt (onTerminated cbs) data s
               else if ty = Some (JStr ''error'') then
                 (case get_prop data ''message'' of
                    Inl e \<Rightarrow> Inl e | Inr x \<Rightarrow> call_opt (onError cbs) x s)
               else Inr (log_to (LogUnknownMessageType data) s)))"

definition ws_onmessage :: "(string \<Rightarrow> json option) \<Rightarrow> callbacks \<Rightarrow> inbound \<Rightarrow> page \<Rightarrow> js_error + page" where
  "ws_onmessage parse cbs ev s =
     (case ev of
        Blob b \<Rightarrow> call_opt (onAudio cbs) b s
      | Text txt \<Rightarrow>
          (case dispatch parse cbs txt s of
             Inl e \<Rightarrow> Inr (log_to (ErrFailedToParse e) s)
           | Inr s' \<Rightarrow> Inr s'))"

text \<open>
  \<^verbatim>\<open>
  ws.onerror = (error) => {
    console.error('WebSocket error:', error); callbacks.onError?.('Connection error'); };
  ws.onclose = (event) => {
    console.log('WebSocket closed:', event.code); callbacks.onDisconnected?.(event.code); };
  \<close>
\<close>

definition ws_onerror :: "callbacks \<Rightarrow> page \<Rightarrow> js_error + page" where
  "ws_onerror cbs s =
     call_opt (onError cbs) (Some (JStr ''Connection error'')) (log_to ErrWebSocketError s)"

definition ws_onclose :: "callbacks \<Rightarrow> nat \<Rightarrow> page \<Rightarrow> js_error + page" where
  "ws_onclose cbs code s = call_opt (onDisconnected cbs) code (log_to (LogWsClosed code) s)"

section \<open>Capture, teardown and playback (InterviewPage.jsx)\<close>

text \<open>
  \<^verbatim>\<open>
  const startAudioCapture = () => {
    if (!streamRef.current || !audioContextRef.current) {
      console.error('Cannot start audio capture: missing stream or context'); return; }
    const audioContext = audioContextRef.current;
    const source = audioContext.createMediaStreamSource(streamRef.current);
    const scriptProcessor = audioContext.createScriptProcessor(4096, 1, 1);
    scriptProcessor.onaudioprocess = ...;
    source.connect(scriptProcessor);
    scriptProcessor.connect(audioContext.destination);
    mediaRecorderRef.current = { processor, source, disconnect };
    setIsRecording(true);
    console.log('Audio capture started successfully');
  };
  \<close>
  Every call builds a new processor; \<open>mediaRecorderRef.current\<close> is the last one built.
\<close>

definition startAudioCapture :: "page \<Rightarrow> page" where
  "startAudioCapture s =
     (case streamRef s of
        None \<Rightarrow> log_to ErrCannotStartCapture s
      | Some live \<Rightarrow>
          (case audioContextRef s of
             None \<Rightarrow> log_to ErrCannotStartCapture s
           | Some audioContext \<Rightarrow>
               log_to LogCaptureStarted
                 (s\<lparr>processors := processors s @
                        [\<lparr>bufferSize = 4096, inputChannels = 1, outputChannels = 1,
                          contextRate = sampleRate audioContext, connected_node = True\<rparr>],
                    isRecording := True\<rparr>)))"

text \<open>
  \<^verbatim>\<open>
  const cleanup = () => {
    if (mediaRecorderRef.current) { try { mediaRecorderRef.current.disconnect(); } catch {} }
    if (wsRef.current) { wsRef.current.close(); }
    if (streamRef.current) { streamRef.current.getTracks().forEach((track) => track.stop()); }
    if (audioContextRef.current) { audioContextRef.current.close(); }
  };
  \<close>
\<close>

definition disconnect_last :: "processor list \<Rightarrow> processor list" where
  "disconnect_last ps =
     (if ps = [] then [] else butlast ps @ [(last ps)\<lparr>connected_node := False\<rparr>])"

definition cleanup :: "page \<Rightarrow> page" where
  "cleanup s =
     s\<lparr>processors := disconnect_last (processors s),
       wsRef := map_option close (wsRef s),
       streamRef := map_option (\<lambda>live. False) (streamRef s),
       audioContextRef := map_option (\<lambda>c. c\<lparr>closed_ctx := True\<rparr>) (audioContextRef s)\<rparr>"

text \<open>
  \<^verbatim>\<open>
  const handleInterviewEnd = async (wasTerminated = false) => {
    cleanup();
    try {
      const result = await endInterview(interview.id);
      onComplete({ ...result, wasTerminated, strikes });
    } catch (err) {
      console.error('Failed to end interview:', err);
      onComplete({ interview, wasTerminated, strikes });
    }
  };
  \<close>
  The part before the \<open>await\<close> runs at once and issues the end-interview request
  (\<open>endRequests\<close> records it, by its \<open>wasTerminated\<close>); the part after it runs when the answer
  arrives.
\<close>

definition handleInterviewEnd :: "bool \<Rightarrow> page \<Rightarrow> page" where
  "handleInterviewEnd wasTerminated s =
     (cleanup s)\<lparr>endRequests := endRequests s @ [wasTerminated]\<rparr>"

definition endInterview_settled :: "bool \<Rightarrow> bool \<Rightarrow> page \<Rightarrow> page" where
  "endInterview_settled wasTerminated ok s =
     (if ok then s\<lparr>completions := completions s @ [wasTerminated]\<rparr>
      else (log_to ErrFailedToEnd s)\<lparr>completions := completions s @ [wasTerminated]\<rparr>)"


text \<open>
  \<^verbatim>\<open>
  const pcm16Data = new Int16Array(arrayBuffer);
  const float32Data = new Float32Array(pcm16Data.length);
  for (let i = 0; i < pcm16Data.length; i++) { float32Data[i] = pcm16Data[i] / 32768; }
  \<close>
  \<open>new Int16Array(buffer)\<close> throws a \<open>RangeError\<close> on an odd byte length; the view reads
  two bytes per element, low byte first. A quotient of a 16-bit integer by \<open>2^15\<close> is exact in
  single precision, so the stored sample is that rational number.
\<close>

fun int16_pairs :: "byte list \<Rightarrow> int16 list" where
  "int16_pairs (lo # hi # rest) = word_cat hi lo # int16_pairs rest"
| "int16_pairs rest = []"

definition Int16Array :: "byte list \<Rightarrow> js_error + int16 list" where
  "Int16Array arrayBuffer =
     (if even (length arrayBuffer) then Inr (int16_pairs arrayBuffer) else Inl RangeError)"

function convert_loop :: "nat \<Rightarrow> int16 list \<Rightarrow> real list \<Rightarrow> real list" where
  "convert_loop i pcm16Data float32Data =
     (if i < length pcm16Data
      then convert_loop (i + 1) pcm16Data
             (float32Data[i := real_of_int (sint (pcm16Data ! i)) / 32768])
      else float32Data)"
  by pat_completeness auto
termination
  by (relation "measure (\<lambda>(i, pcm16Data, float32Data). length pcm16Data - i)") auto

definition pcm16_to_float32 :: "int16 list \<Rightarrow> real list" where
  "pcm16_to_float32 pcm16Data = convert_loop 0 pcm16Data (replicate (length pcm16Data) 0)"

subsection \<open>Double precision\<close>

text \<open>
  JavaScript numbers are binary64. \<open>binary64 x\<close> is the double nearest to the real \<open>x\<close>:
  a multiple of the unit in the last place of the binade of \<open>x\<close> (53 significant bits,
  the subnormal grid \<open>2^-1074\<close> below \<open>2^-1022\<close>), ties going to the even multiple. The
  exponent is not bounded above: the times below are seconds and stay far under \<open>2^1024\<close>,
  where the platform's result would be \<open>Infinity\<close>. \<open>Math.max\<close> and \<open><\<close> on doubles are exact.
\<close>

definition rne :: "real \<Rightarrow> int" where
  "rne q =
     (let f = \<lfloor>q\<rfloor>; r = q - of_int f
      in if r < 1 / 2 then f else if 1 / 2 < r then f + 1 else if even f then f else f + 1)"

definition exponent :: "real \<Rightarrow> int" where
  "exponent x = max \<lfloor>log 2 \<bar>x\<bar>\<rfloor> (- 1022)"

definition ulp :: "real \<Rightarrow> real" where
  "ulp x = 2 powi (exponent x - 52)"

definition binary64 :: "real \<Rightarrow> real" where
  "binary64 x = (if x = 0 then 0 else of_int (rne (x / ulp x)) * ulp x)"

subsection \<open>Playback\<close>

text \<open>
  \<^verbatim>\<open>
  const playAudio = async (arrayBuffer) => {
    try {
      const audioContext = audioContextRef.current || new AudioContext({ sampleRate: 24000 });
      audioContextRef.current = audioContext;
      ... conversion ...
      const audioBuffer = audioContext.createBuffer(1, float32Data.length, 24000);
      audioBuffer.getChannelData(0).set(float32Data);
      const currentTime = audioContext.currentTime;
      const startTime = Math.max(currentTime, nextStartTimeRef.current);
      const source = audioContext.createBufferSource();
      source.buffer = audioBuffer;
      source.connect(audioContext.destination);
      source.start(startTime);
      nextStartTimeRef.current = startTime + audioBuffer.duration;
      if (nextStartTimeRef.current < currentTime) { nextStartTimeRef.current = currentTime; }
    } catch (err) { console.error('Failed to play audio:', err); }
  };
  \<close>
  \<open>createBuffer\<close> throws \<open>NotSupportedError\<close> for a length of zero. \<open>audioBuffer.duration\<close>
  is the double \<open>length / sampleRate\<close>, and \<open>startTime + audioBuffer.duration\<close> is a sum of
  doubles, rounded again.
\<close>

definition playAudio :: "byte list \<Rightarrow> real \<Rightarrow> page \<Rightarrow> page" where
  "playAudio arrayBuffer currentTime s =
     (let audioContext =
            (case audioContextRef s of
               None \<Rightarrow> \<lparr>sampleRate = 24000, closed_ctx = False\<rparr>
             | Some c \<Rightarrow> c);
          s1 = s\<lparr>audioContextRef := Some audioContext\<rparr>
      in case Int16Array arrayBuffer of
           Inl e \<Rightarrow> log_to (ErrFailedToPlay e) s1
         | Inr pcm16Data \<Rightarrow>
             (let float32Data = pcm16_to_float32 pcm16Data in
              if length float32Data = 0 then log_to (ErrFailedToPlay NotSupportedError) s1
              else
                (let duration = binary64 (real (length float32Data) / 24000);
                     startAt = max currentTime (nextStartTime s1);
                     s2 = s1\<lparr>scheduled := scheduled s1 @
                                  [\<lparr>startTime = startAt, samples = float32Data\<rparr>],
                             nextStartTime := binary64 (startAt + duration)\<rparr>
                 in if nextStartTime s2 < currentTime
                    then s2\<lparr>nextStartTime := currentTime\<rparr> else s2)))"

text \<open>
  \<^verbatim>\<open>
  scriptProcessor.onaudioprocess = (event) => {
    if (!wsRef.current) return;
    const inputData = event.inputBuffer.getChannelData(0);
    const float32Array = new Float32Array(inputData);
    const buffer = float32Array.buffer;
    wsRef.current.sendAudio(buffer);
  };
  \<close>
\<close>

record audio_buffer =
  ab_sampleRate :: nat
  ab_channels :: "float32 list list"

definition getChannelData :: "audio_buffer \<Rightarrow> nat \<Rightarrow> js_error + float32 list" where
  "getChannelData b c =
     (if c < length (ab_channels b) then Inr (ab_channels b ! c) else Inl IndexSizeError)"

definition onaudioprocess :: "audio_buffer \<Rightarrow> page \<Rightarrow> js_error + page" where
  "onaudioprocess inputBuffer s =
     (case wsRef s of
        None \<Rightarrow> Inr s
      | Some ws \<Rightarrow>
          (case getChannelData inputBuffer 0 of
             Inl e \<Rightarrow> Inl e
           | Inr inputData \<Rightarrow>
               (case sendAudio inputData ws of
                  Inl e \<Rightarrow> Inl e
                | Inr ws' \<Rightarrow> Inr (s\<lparr>wsRef := Some ws'\<rparr>))))"

section \<open>Cheating detection (InterviewPage.jsx)\<close>

text \<open>
  \<^verbatim>\<open>
  const handleCheatingDetection = async (eventType, confidence, details) => {
    try {
      console.log(`Reporting cheating: ${eventType} (confidence: ${confidence})`);
      const result = await reportCheating(interview.id, eventType, confidence, details);
      if (result.strikes) {
        setStrikes(result.strikes);
        const strikeMessage = result.warning_message
          || `Strike ${result.strikes}/2: ${eventType.replace('_', ' ')}`;
        setWarning(strikeMessage);
        setTimeout(() => setWarning(null), 5000);
      }
      if (result.terminated) { setTerminated(true); handleInterviewEnd(true); }
    } catch (err) { console.error('Cheating report error:', err); }
  };
  \<close>
  The part before the \<open>await\<close> issues the report request; \<open>reportCheating_settled\<close> is the
  part after it, run with the answer (\<open>None\<close> when \<open>reportCheating\<close> throws).
\<close>

definition handleCheatingDetection :: "string \<Rightarrow> real \<Rightarrow> (string \<times> json) list \<Rightarrow> page \<Rightarrow> page" where
  "handleCheatingDetection eventType conf dets s =
     (log_to (LogReporting eventType conf) s)
       \<lparr>reports := reports s @ [\<lparr>event_type = eventType, confidence = conf, details = dets\<rparr>]\<rparr>"

definition strikeMessage :: "json \<Rightarrow> json option \<Rightarrow> string \<Rightarrow> warning_text" where
  "strikeMessage result st eventType =
     (case get_prop result ''warning_message'' of
        Inr wm \<Rightarrow> if truthy wm then WarnValue wm else WarnStrike st (replace_underscore eventType)
      | Inl e \<Rightarrow> WarnStrike st (replace_underscore eventType))"

definition reportCheating_settled :: "string \<Rightarrow> json option \<Rightarrow> page \<Rightarrow> page" where
  "reportCheating_settled eventType response s =
     (case response of
        None \<Rightarrow> log_to ErrCheatingReport s
      | Some result \<Rightarrow>
          (case get_prop result ''strikes'' of
             Inl e \<Rightarrow> log_to ErrCheatingReport s
           | Inr st \<Rightarrow>
               (let s1 = (if truthy st
                          then s\<lparr>strikes := st, warning := strikeMessage result st eventType\<rparr>
                          else s)
                in case get_prop result ''terminated'' of
                     Inl e \<Rightarrow> log_to ErrCheatingReport s1
                   | Inr tm \<Rightarrow>
                       if truthy tm then handleInterviewEnd True (s1\<lparr>terminated := True\<rparr>)
                       else s1)))"

text \<open>
  \<^verbatim>\<open>
  const handleVisibilityChange = () => {
    if (document.hidden && !terminated) {
      console.warn('CHEATING: Tab switched or window minimized');
      tabSwitchCountRef.current += 1;
      handleCheatingDetection('tab_switch', 1, { message: 'Tab switching detected', timestamp });
    }
  };
  const handleBlur = () => {
    if (!terminated) {
      console.warn('CHEATING: Window lost focus');
      handleCheatingDetection('window_blur', 0.85, { message: 'Window focus lost', timestamp });
    }
  };
  const handleContextMenu = (e) => {
    if (!terminated) { e.preventDefault(); console.warn('CHEATING: Right-click attempt');
      handleCheatingDetection('right_click', 0.65, { message: 'Right-click detected' }); }
  };
  const handleCopy = (e) => {
    if (!terminated) { e.preventDefault(); console.warn('CHEATING: Copy attempt');
      handleCheatingDetection('copy_attempt', 0.7, { message: 'Copy/paste detected' }); }
  };
  \<close>
  These are closures of an effect with the dependency list \<open>[terminated]\<close>: the
  \<open>terminated\<close> they read is the one of the render that registered them.
\<close>

definition handleVisibilityChange :: "bool \<Rightarrow> page \<Rightarrow> page" where
  "handleVisibilityChange hidden s =
     (if hidden \<and> \<not> registeredTerminated s then
        handleCheatingDetection ''tab_switch'' 1 [(''message'', JStr ''Tab switching detected'')]
          ((log_to WarnTabSwitched s)\<lparr>tabSwitchCount := tabSwitchCount s + 1\<rparr>)
      else s)"

definition handleBlur :: "page \<Rightarrow> page" where
  "handleBlur s =
     (if \<not> registeredTerminated s then
        handleCheatingDetection ''window_blur'' 0.85 [(''message'', JStr ''Window focus lost'')]
          (log_to WarnWindowBlur s)
      else s)"

definition handleContextMenu :: "page \<Rightarrow> page" where
  "handleContextMenu s =
     (if \<not> registeredTerminated s then
        handleCheatingDetection ''right_click'' 0.65 [(''message'', JStr ''Right-click detected'')]
          (log_to WarnRightClick s)
      else s)"

definition handleCopy :: "page \<Rightarrow> page" where
  "handleCopy s =
     (if \<not> registeredTerminated s then
        handleCheatingDetection ''copy_attempt'' 0.7 [(''message'', JStr ''Copy/paste detected'')]
          (log_to WarnCopyAttempt s)
      else s)"

text \<open>
  \<^verbatim>\<open>
  const detectFace = async () => {
    if (!videoRef.current || !faceDetectorRef.current || terminated) return;
    try {
      ... draw the frame ...
      const faces = await faceDetectorRef.current.detect(canvas);
      if (faces.length === 0) {
        const timeSinceLastFace = Date.now() - lastFaceDetectedRef.current;
        if (timeSinceLastFace > 3000) { // No face for 3 seconds
          console.warn('CHEATING: No face detected');
          handleCheatingDetection('no_face', 0.8,
            { message: 'Face not visible', duration: timeSinceLastFace });
          lastFaceDetectedRef.current = Date.now(); // Reset to avoid spam
        }
      } else if (faces.length > 1) {
        console.warn('CHEATING: Multiple faces detected');
        handleCheatingDetection('multiple_faces', 0.9,
          { message: 'Multiple people detected', count: faces.length });
      } else {
        lastFaceDetectedRef.current = Date.now(); // Face detected - update timestamp
      }
    } catch (err) { console.debug('Face detection error:', err); }
  };
  const faceCheckInterval = setInterval(detectFace, 2000);
  \<close>
  \<open>detectFace\<close> is a closure of an effect with the dependency list \<open>[terminated]\<close>, as
  the listeners are. It is split at its \<open>await\<close>: \<open>detectFace\<close> is the part the interval
  timer runs, up to the call of the detector; \<open>detectFace_detected\<close> is the part that runs
  when the detector answers, and it does not read \<open>terminated\<close> again. It is given the
  detector's outcome (\<open>DetectFailed\<close> when anything inside the \<open>try\<close> threw) and the readings
  of \<open>Date.now()\<close> in milliseconds: \<open>now\<close> for the first reading of the branch taken,
  \<open>now'\<close> for the second reading of the no-face branch.
\<close>

datatype face_outcome = Faces nat | DetectFailed

definition detectFace :: "page \<Rightarrow> page" where
  "detectFace s =
     (if \<not> hasVideo s \<or> \<not> hasFaceDetector s \<or> registeredTerminated s then s
      else s\<lparr>pollsInFlight := pollsInFlight s + 1\<rparr>)"

definition detectFace_detected :: "face_outcome \<Rightarrow> int \<Rightarrow> int \<Rightarrow> page \<Rightarrow> page" where
  "detectFace_detected outcome now now' s0 =
     (let s = s0\<lparr>pollsInFlight := pollsInFlight s0 - 1\<rparr>
      in case outcome of
           DetectFailed \<Rightarrow> log_to DebugFaceDetectionError s
         | Faces n \<Rightarrow>
             if n = 0 then
               (let timeSinceLastFace = now - lastFaceDetected s in
                if timeSinceLastFace > 3000 then
                  (handleCheatingDetection ''no_face'' 0.8
                     [(''message'', JStr ''Face not visible''),
                      (''duration'', JNum (real_of_int timeSinceLastFace))]
                     (log_to WarnNoFace s))\<lparr>lastFaceDetected := now'\<rparr>
                else s)
             else if n > 1 then
               handleCheatingDetection ''multiple_faces'' 0.9
                 [(''message'', JStr ''Multiple people detected''), (''count'', JNum (real n))]
                 (log_to WarnMultipleFaces s)
             else s\<lparr>lastFaceDetected := now\<rparr>)"

section \<open>The page as a machine driven by browser events\<close>

text \<open>
  \<^verbatim>\<open>
  wsRef.current = createInterviewWebSocket(interview.id, {
    onConnected: () => { setStatus('connected'); startAudioCapture(); },
    onTranscript: (text) => { setTranscript((prev) => [...prev, { type: 'ai', text }]); },
    onAudio: async (blob) => { const arrayBuffer = await blob.arrayBuffer(); playAudio(arrayBuffer); },
    onWarning: (data) => { setStrikes(data.strikes); setWarning(data.message);
                           setTimeout(() => setWarning(null), 5000); },
    onTerminated: (data) => { setTerminated(true); setStrikes(data.strikes); handleInterviewEnd(true); },
    onError: (msg) => { console.error('WebSocket error:', msg); },
    onDisconnected: () => { setStatus('disconnected'); },
  });
  \<close>
  \<open>onAudio\<close> only starts reading the blob; \<open>playAudio\<close> runs when the read completes (the
  event \<open>AudioReady\<close> below). The channel hands \<open>onWarning\<close> and \<open>onTerminated\<close> an object,
  on which a property read cannot throw.
\<close>

definition page_callbacks :: callbacks where
  "page_callbacks =
     \<lparr>onConnected = Some (\<lambda>data s. Inr (startAudioCapture (s\<lparr>status := StConnected\<rparr>))),
      onTranscript = Some (\<lambda>txt s. Inr (s\<lparr>transcript := transcript s @ [txt]\<rparr>)),
      onAudio = Some (\<lambda>blob s. Inr s),
      onWarning = Some (\<lambda>data s.
        case get_prop data ''strikes'' of
          Inl e \<Rightarrow> Inl e
        | Inr st \<Rightarrow>
            (case get_prop data ''message'' of
               Inl e \<Rightarrow> Inl e
             | Inr m \<Rightarrow> Inr (s\<lparr>strikes := st, warning := WarnValue m\<rparr>))),
      onTerminated = Some (\<lambda>data s.
        case get_prop data ''strikes'' of
          Inl e \<Rightarrow> Inl e
        | Inr st \<Rightarrow> Inr (handleInterviewEnd True (s\<lparr>terminated := True, strikes := st\<rparr>))),
      onError = Some (\<lambda>msg s. Inr (log_to (ErrWebSocketMsg msg) s)),
      onDisconnected = Some (\<lambda>code s. Inr (s\<lparr>status := StDisconnected\<rparr>))\<rparr>"

text \<open>
  The component when it has mounted: the state hooks at their initial values, the
  listeners and the face poll registered with \<open>terminated = false\<close>,
  \<open>lastFaceDetectedRef = useRef(Date.now())\<close>, the one call of \<open>connectWebSocket\<close> done
  (a connecting socket), \<open>initializeMedia\<close> pending, and the face detector initialised:
  \<^verbatim>\<open>
  if ('FaceDetector' in globalThis) {
    try { faceDetectorRef.current = new FaceDetector({ fastMode: true });
          console.log('Face detection initialized'); }
    catch (err) { console.warn('Face detector not available:', err); }
  } else { console.warn('FaceDetector API not available in this browser'); }
  \<close>
\<close>

datatype detector_init = DetectorReady | DetectorFailed | DetectorMissing

definition mount :: "int \<Rightarrow> detector_init \<Rightarrow> page" where
  "mount now fd =
     \<lparr>status = StConnecting, strikes = Some (JNum 0), warning = NoWarning, transcript = [],
      isRecording = False, terminated = False, registeredTerminated = False, hasVideo = True,
      wsRef = Some \<lparr>readyState = CONNECTING, transmitted = []\<rparr>,
      streamRef = None, audioContextRef = None, processors = [],
      nextStartTime = 0, scheduled = [], tabSwitchCount = 0, lastFaceDetected = now,
      hasFaceDetector = (fd = DetectorReady), pollsInFlight = 0,
      reports = [], endRequests = [], completions = [],
      console = [case fd of DetectorReady \<Rightarrow> LogFaceDetectionInit
                 | DetectorFailed \<Rightarrow> WarnFaceDetectorFailed
                 | DetectorMissing \<Rightarrow> WarnFaceDetectorMissing]\<rparr>"

text \<open>
  The events that run code of the page. \<open>MediaGranted\<close> and \<open>MediaDenied\<close> settle
  \<open>initializeMedia\<close>:
  \<^verbatim>\<open>
  try {
    const stream = await navigator.mediaDevices.getUserMedia({ video: true, audio: true });
    streamRef.current = stream;
    if (videoRef.current) { videoRef.current.srcObject = stream; }
    audioContextRef.current = new AudioContext({ sampleRate: 16000 });
  } catch (err) { console.error('Failed to access media devices:', err); setStatus('error'); }
  \<close>
  \<open>ReportResponse\<close> and \<open>EndResponse\<close> are the answers to the two kinds of request;
  \<open>ClickEnd\<close> is the End Interview button (\<open>handleInterviewEnd(false)\<close>), \<open>ClickReturnHome\<close>
  the button of the terminated modal (\<open>onComplete({ terminated: true, strikes })\<close>),
  \<open>WarningTimeout\<close> the timer that clears the toast. \<open>EffectsRun\<close> is React running
  the effects again after a render: the listeners and the face poll are registered anew
  and read the current \<open>terminated\<close> from then on. \<open>FacePollTick\<close> is the interval timer
  calling \<open>detectFace\<close>, \<open>FaceDetected\<close> the detector answering a poll in flight.
\<close>

datatype event =
    MediaGranted
  | MediaDenied
  | WsOpen
  | WsMessage inbound
  | WsError
  | WsClose nat
  | AudioReady "byte list" real
  | AudioProcess nat audio_buffer
  | WarningTimeout
  | VisibilityChange bool
  | Blur
  | ContextMenu
  | Copy
  | EffectsRun
  | FacePollTick
  | FaceDetected face_outcome int int
  | ReportResponse string "json option"
  | ClickEnd
  | EndResponse bool bool
  | ClickReturnHome

definition set_readyState :: "ready_state \<Rightarrow> page \<Rightarrow> page" where
  "set_readyState r s = s\<lparr>wsRef := map_option (\<lambda>w. w\<lparr>readyState := r\<rparr>) (wsRef s)\<rparr>"

fun step :: "(string \<Rightarrow> json option) \<Rightarrow> event \<Rightarrow> page \<Rightarrow> page" where
  "step parse MediaGranted s =
     s\<lparr>streamRef := Some True,
       audioContextRef := Some \<lparr>sampleRate = 16000, closed_ctx = False\<rparr>\<rparr>"
| "step parse MediaDenied s = (log_to ErrMediaDevices s)\<lparr>status := StError\<rparr>"
| "step parse WsOpen s =
     (let s1 = set_readyState OPEN s in settle s1 (ws_onopen page_callbacks s1))"
| "step parse (WsMessage m) s = settle s (ws_onmessage parse page_callbacks m s)"
| "step parse WsError s = settle s (ws_onerror page_callbacks s)"
| "step parse (WsClose code) s =
     (let s1 = set_readyState CLOSED s in settle s1 (ws_onclose page_callbacks code s1))"
| "step parse (AudioReady arrayBuffer currentTime) s = playAudio arrayBuffer currentTime s"
| "step parse (AudioProcess i inputBuffer) s = settle s (onaudioprocess inputBuffer s)"
| "step parse WarningTimeout s = s\<lparr>warning := NoWarning\<rparr>"
| "step parse (VisibilityChange hidden) s = handleVisibilityChange hidden s"
| "step parse Blur s = handleBlur s"
| "step parse ContextMenu s = handleContextMenu s"
| "step parse Copy s = handleCopy s"
| "step parse EffectsRun s = s\<lparr>registeredTerminated := terminated s\<rparr>"
| "step parse FacePollTick s = detectFace s"
| "step parse (FaceDetected outcome now now') s = detectFace_detected outcome now now' s"
| "step parse (ReportResponse eventType response) s = reportCheating_settled eventType response s"
| "step parse ClickEnd s = handleInterviewEnd False s"
| "step parse (EndResponse wasTerminated ok) s = endInterview_settled wasTerminated ok s"
| "step parse ClickReturnHome s = s\<lparr>completions := completions s @ [True]\<rparr>"

fun run :: "(string \<Rightarrow> json option) \<Rightarrow> event list \<Rightarrow> page \<Rightarrow> page" where
  "run parse [] s = s"
| "run parse (e # es) s = run parse es (step parse e s)"

text \<open>
  What the browser guarantees about when it fires an event: \<open>open\<close> only on a connecting
  socket, \<open>message\<close> only on an open one, \<open>error\<close> and \<open>close\<close> not on a closed one;
  \<open>audioprocess\<close> of processor \<open>i\<close> only while it is connected in a running context, with
  an input buffer of the processor's channel count and buffer size at the context's rate;
  a detector's answer only for a poll in flight; the modal's button only while the modal
  is shown.
\<close>

definition ready_is :: "page \<Rightarrow> (ready_state \<Rightarrow> bool) \<Rightarrow> bool" where
  "ready_is s P = (case wsRef s of None \<Rightarrow> False | Some w \<Rightarrow> P (readyState w))"

definition context_running :: "page \<Rightarrow> bool" where
  "context_running s = (case audioContextRef s of None \<Rightarrow> False | Some c \<Rightarrow> \<not> closed_ctx c)"

definition conforms :: "processor \<Rightarrow> audio_buffer \<Rightarrow> bool" where
  "conforms p b =
     (ab_sampleRate b = contextRate p \<and> length (ab_channels b) = inputChannels p \<and>
      list_all (\<lambda>c. length c = bufferSize p) (ab_channels b))"

fun enabled :: "page \<Rightarrow> event \<Rightarrow> bool" where
  "enabled s WsOpen = ready_is s (\<lambda>r. r = CONNECTING)"
| "enabled s (WsMessage m) = ready_is s (\<lambda>r. r = OPEN)"
| "enabled s WsError = ready_is s (\<lambda>r. r \<noteq> CLOSED)"
| "enabled s (WsClose code) = ready_is s (\<lambda>r. r \<noteq> CLOSED)"
| "enabled s (AudioProcess i b) =
     (i < length (processors s) \<and> connected_node (processors s ! i) \<and> context_running s \<and>
      conforms (processors s ! i) b)"
| "enabled s (FaceDetected outcome now now') = (0 < pollsInFlight s)"
| "enabled s ClickReturnHome = terminated s"
| "enabled s e = True"

fun feasible :: "(string \<Rightarrow> json option) \<Rightarrow> page \<Rightarrow> event list \<Rightarrow> bool" where
  "feasible parse s [] = True"
| "feasible parse s (e # es) = (enabled s e \<and> feasible parse (step parse e s) es)"


section \<open>Constants of the statements\<close>

text \<open>The case labels of the \<open>switch\<close> in \<open>ws.onmessage\<close>.\<close>

definition control_types :: "string list" where
  "control_types = [''connected'', ''transcript'', ''warning'', ''terminated'', ''error'']"

text \<open>A stand-in for \<open>JSON.parse\<close> on the few texts used as examples below.\<close>

definition parse_example :: "string \<Rightarrow> json option" where
  "parse_example txt =
     (if txt = ''{\"type\":\"ping\"}'' then Some (JObj [(''type'', JStr ''ping'')])
      else if txt = ''{\"type\":\"terminated\",\"strikes\":2}''
        then Some (JObj [(''type'', JStr ''terminated''), (''strikes'', JNum 2)])
      else if txt = ''null'' then Some JNull
      else None)"

text \<open>Example runs and states of the statements below. The socket closes with code 1006
  (abnormal closure) in \<open>lost_connection\<close>.\<close>

definition manual_then_report :: "event list" where
  "manual_then_report =
     [MediaGranted, WsOpen, Blur, ClickEnd,
      ReportResponse ''window_blur''
        (Some (JObj [(''strikes'', JNum 2), (''terminated'', JBool True)])),
      EndResponse False True, EndResponse True True]"

definition channel_then_manual :: "event list" where
  "channel_then_manual =
     [MediaGranted, WsOpen, WsMessage (Text ''{\"type\":\"terminated\",\"strikes\":2}''),
      ClickEnd, EndResponse True True, EndResponse False True]"

definition terminated_state :: page where
  "terminated_state =
     run parse_example
       [MediaGranted, WsOpen, WsMessage (Text ''{\"type\":\"terminated\",\"strikes\":2}'')]
       (mount 0 DetectorReady)"

definition connected_state :: page where
  "connected_state = run parse_example [MediaGranted, WsOpen] (mount 0 DetectorReady)"

definition lost_connection :: page where
  "lost_connection =
     run parse_example [MediaGranted, WsOpen, WsClose 1006] (mount 0 DetectorReady)"

definition silence :: audio_buffer where
  "silence = \<lparr>ab_sampleRate = 16000, ab_channels = [replicate 4096 0]\<rparr>"

definition one_two_none :: "event list" where
  "one_two_none =
     [FacePollTick, FaceDetected (Faces 1) 2000 2000,
      FacePollTick, FaceDetected (Faces 2) 4000 4000,
      FacePollTick, FaceDetected (Faces 0) 6000 6000]"

text \<open>A face poll passes its guard, then a \<open>terminated\<close> message arrives and React runs the
  effects again, all before the detector answers.\<close>

definition poll_in_flight :: "event list" where
  "poll_in_flight =
     [MediaGranted, WsOpen, FacePollTick,
      WsMessage (Text ''{\"type\":\"terminated\",\"strikes\":2}''), EffectsRun]"












definition after_loss :: "event list" where
  "after_loss = [AudioProcess 0 silence, AudioReady [0, 0] 1, ClickEnd]"

section \<open>Unfolding the handlers\<close>

declare convert_loop.simps [simp del]

lemmas handler_defs =
  settle_def ws_onopen_def ws_onmessage_def dispatch_def ws_onerror_def ws_onclose_def
  call_opt_def page_callbacks_def log_to_def startAudioCapture_def cleanup_def
  handleInterviewEnd_def endInterview_settled_def playAudio_def onaudioprocess_def
  sendAudio_def handleCheatingDetection_def reportCheating_settled_def
  handleVisibilityChange_def handleBlur_def handleContextMenu_def handleCopy_def
  detectFace_def detectFace_detected_def set_readyState_def Let_def

lemmas example_defs =
  mount_def parse_example_def disconnect_last_def close_def strikeMessage_def
  getChannelData_def ready_is_def context_running_def conforms_def

lemma get_prop_Some_obj: "get_prop data k = Inr (Some v) \<Longrightarrow> \<exists>kvs. data = JObj kvs"
  by (cases data) simp_all

section \<open>The channel's send operations\<close>

text \<open>
  C10. \<open>send\<close> and \<open>sendAudio\<close> return normally and transmit nothing unless the socket is
  \<open>OPEN\<close>; on an open socket \<open>send\<close> transmits a string as it is and any other payload as
  the text \<open>JSON.stringify\<close> gives for it.
\<close>

theorem send_guarded_by_open:
  "(readyState ws \<noteq> OPEN \<longrightarrow>
      send stringify data ws = Inr ws \<and> sendAudio audioData ws = Inr ws) \<and>
   (readyState ws = OPEN \<longrightarrow>
      send stringify (PString str) ws = Inr (ws\<lparr>transmitted := transmitted ws @ [WText str]\<rparr>) \<and>
      (\<forall>v txt. stringify v = Some txt \<longrightarrow>
         send stringify (PValue v) ws = Inr (ws\<lparr>transmitted := transmitted ws @ [WText txt]\<rparr>)))"
  by (simp add: send_def sendAudio_def)

theorem send_guarded_by_open_witness:
  "send (\<lambda>v. if v = JArr [] then Some ''[]'' else None) (PValue (JArr []))
       \<lparr>readyState = CONNECTING, transmitted = []\<rparr>
     = Inr \<lparr>readyState = CONNECTING, transmitted = []\<rparr> \<and>
   sendAudio [0, 1] \<lparr>readyState = CONNECTING, transmitted = []\<rparr>
     = Inr \<lparr>readyState = CONNECTING, transmitted = []\<rparr> \<and>
   send (\<lambda>v. if v = JArr [] then Some ''[]'' else None) (PValue (JArr []))
       \<lparr>readyState = OPEN, transmitted = []\<rparr>
     = Inr \<lparr>readyState = OPEN, transmitted = [WText ''[]'']\<rparr>"
  using send_guarded_by_open [of "\<lparr>readyState = CONNECTING, transmitted = []\<rparr>"
          "\<lambda>v. if v = JArr [] then Some ''[]'' else None" "PValue (JArr [])" "[0, 1]"]
        send_guarded_by_open [of "\<lparr>readyState = OPEN, transmitted = []\<rparr>"
          "\<lambda>v. if v = JArr [] then Some ''[]'' else None"]
  by simp

section \<open>Unknown and malformed control messages\<close>

lemma dispatch_unknown:
  assumes "parse txt = Some data" "get_prop data ''type'' = Inr ty"
    "\<forall>k \<in> set control_types. ty \<noteq> Some (JStr k)"
  shows "dispatch parse cbs txt s = Inr (log_to (LogUnknownMessageType data) s)"
  using assms by (simp add: dispatch_def control_types_def)

text \<open>
  C7. A text message that \<open>JSON.parse\<close> rejects, or whose \<open>type\<close> is none of the five
  control types, only adds one line to the console: whatever callbacks are registered,
  \<open>ws.onmessage\<close> returns normally with the state it found plus that line (so no callback
  ran), and so does the page.
\<close>

theorem unknown_or_malformed_ignored:
  assumes "parse txt = None \<or>
           (\<exists>data. parse txt = Some data \<and>
              (\<forall>k \<in> set control_types. get_prop data ''type'' \<noteq> Inr (Some (JStr k))))"
  shows "\<exists>l. ((\<exists>e. l = ErrFailedToParse e) \<or> (\<exists>data. l = LogUnknownMessageType data)) \<and>
             (\<forall>cbs. ws_onmessage parse cbs (Text txt) s = Inr (log_to l s)) \<and>
             step parse (WsMessage (Text txt)) s = log_to l s"
proof -
  from assms consider
      (bad) "parse txt = None"
    | (thrown) data e where "parse txt = Some data" "get_prop data ''type'' = Inl e"
    | (unknown) data ty where "parse txt = Some data" "get_prop data ''type'' = Inr ty"
        "\<forall>k \<in> set control_types. ty \<noteq> Some (JStr k)"
    by (metis sum.collapse)
  then show ?thesis
  proof cases
    case bad
    then have "\<forall>cbs. dispatch parse cbs txt s = Inl SyntaxError"
      by (simp add: dispatch_def)
    then show ?thesis
      by (intro exI [of _ "ErrFailedToParse SyntaxError"]) (simp add: ws_onmessage_def settle_def)
  next
    case thrown
    then have "\<forall>cbs. dispatch parse cbs txt s = Inl e"
      by (simp add: dispatch_def)
    then show ?thesis
      by (intro exI [of _ "ErrFailedToParse e"]) (simp add: ws_onmessage_def settle_def)
  next
    case unknown
    then have "\<forall>cbs. dispatch parse cbs txt s = Inr (log_to (LogUnknownMessageType data) s)"
      by (simp add: dispatch_unknown)
    then show ?thesis
      by (intro exI [of _ "LogUnknownMessageType data"]) (simp add: ws_onmessage_def settle_def)
  qed
qed

theorem unknown_or_malformed_ignored_witness:
  "(parse_example ''{\"type\":\"ping\"}'' = None \<or>
    (\<exists>data. parse_example ''{\"type\":\"ping\"}'' = Some data \<and>
       (\<forall>k \<in> set control_types. get_prop data ''type'' \<noteq> Inr (Some (JStr k))))) \<and>
   (\<exists>l. ((\<exists>e. l = ErrFailedToParse e) \<or> (\<exists>data. l = LogUnknownMessageType data)) \<and>
        (\<forall>cbs. ws_onmessage parse_example cbs (Text ''{\"type\":\"ping\"}'') (mount 0 DetectorReady)
                 = Inr (log_to l (mount 0 DetectorReady))) \<and>
        step parse_example (WsMessage (Text ''{\"type\":\"ping\"}'')) (mount 0 DetectorReady)
          = log_to l (mount 0 DetectorReady))"
proof -
  have h: "parse_example ''{\"type\":\"ping\"}'' = None \<or>
    (\<exists>data. parse_example ''{\"type\":\"ping\"}'' = Some data \<and>
       (\<forall>k \<in> set control_types. get_prop data ''type'' \<noteq> Inr (Some (JStr k))))"
    by (simp add: parse_example_def control_types_def)
  show ?thesis
    using h unknown_or_malformed_ignored
      [of parse_example "''{\"type\":\"ping\"}''" "mount 0 DetectorReady"] by blast
qed


section \<open>Termination is final\<close>

lemma terminated_step: "terminated s \<Longrightarrow> terminated (step parse e s)"
  by (cases e)
     (auto simp: handler_defs split: option.splits sum.splits inbound.splits face_outcome.splits)

lemma terminated_run: "terminated s \<Longrightarrow> terminated (run parse evs s)"
  by (induction evs arbitrary: s) (simp_all add: terminated_step)

text \<open>A page is quiet when the flag is set, the listeners and the poll have been registered
  again with it, and no face poll is in flight. A quiet page stays quiet and never issues
  another report.\<close>

lemma quiet_step:
  assumes "terminated s" "registeredTerminated s" "pollsInFlight s = 0" "enabled s e"
  shows "terminated (step parse e s) \<and> registeredTerminated (step parse e s) \<and>
         pollsInFlight (step parse e s) = 0 \<and> reports (step parse e s) = reports s"
  using assms
  by (cases e)
     (auto simp: handler_defs split: option.splits sum.splits inbound.splits face_outcome.splits)

lemma quiet_run:
  assumes "terminated s" "registeredTerminated s" "pollsInFlight s = 0" "feasible parse s evs"
  shows "reports (run parse evs s) = reports s"
  using assms
proof (induction evs arbitrary: s)
  case Nil
  then show ?case by simp
next
  case (Cons e evs)
  from Cons.prems have en: "enabled s e" and rest: "feasible parse (step parse e s) evs"
    by simp_all
  from quiet_step [OF Cons.prems(1-3) en, of parse]
  have q: "terminated (step parse e s)" "registeredTerminated (step parse e s)"
    "pollsInFlight (step parse e s) = 0" "reports (step parse e s) = reports s"
    by simp_all
  from Cons.IH [OF q(1-3) rest] q(4) show ?case by simp
qed

text \<open>
  C1. The guard of \<open>detectFace\<close> is read before the \<open>await\<close> only, and the listeners read
  the flag of the render that registered them. A face poll that has passed its guard when
  a \<open>terminated\<close> message arrives still reports what the detector then answers: no report
  had been issued, the flag is set and the effects have run again, and two faces are
  reported as \<open>multiple_faces\<close>. And a blur that comes after the \<open>terminated\<close> message but
  before React has run the effects again is reported as \<open>window_blur\<close>.
\<close>

theorem reports_after_termination:
  "feasible parse_example (mount 0 DetectorReady)
     (poll_in_flight @ [FaceDetected (Faces 2) 4000 4000]) \<and>
   terminated (run parse_example poll_in_flight (mount 0 DetectorReady)) \<and>
   registeredTerminated (run parse_example poll_in_flight (mount 0 DetectorReady)) \<and>
   reports (run parse_example poll_in_flight (mount 0 DetectorReady)) = [] \<and>
   map event_type (reports (run parse_example
       (poll_in_flight @ [FaceDetected (Faces 2) 4000 4000]) (mount 0 DetectorReady)))
     = [''multiple_faces''] \<and>
   terminated terminated_state \<and> reports terminated_state = [] \<and>
   map event_type (reports (step parse_example Blur terminated_state)) = [''window_blur'']"
  by (simp add: poll_in_flight_def terminated_state_def handler_defs example_defs)

section \<open>Teardown triggers\<close>

text \<open>
  C2, as the claim states it, fails: \<open>handleInterviewEnd\<close> has no lock. In the first run the
  End Interview button is pressed while a report is in flight and the answer to the report
  then says \<open>terminated\<close>; in the second a \<open>terminated\<close> message arrives on the channel and
  the button is pressed before the end-interview request is answered. Either way two
  end-interview requests are issued, one as completed and one as terminated.
\<close>

theorem single_teardown_counterexample:
  "feasible parse_example (mount 0 DetectorReady) manual_then_report \<and>
   endRequests (run parse_example manual_then_report (mount 0 DetectorReady)) = [False, True] \<and>
   completions (run parse_example manual_then_report (mount 0 DetectorReady)) = [False, True] \<and>
   feasible parse_example (mount 0 DetectorReady) channel_then_manual \<and>
   endRequests (run parse_example channel_then_manual (mount 0 DetectorReady)) = [True, False] \<and>
   completions (run parse_example channel_then_manual (mount 0 DetectorReady)) = [True, False]"
  by (simp add: manual_then_report_def channel_then_manual_def handler_defs example_defs)

text \<open>
  C2, amended. Every teardown trigger issues its own end-interview request, whatever the
  state: the End Interview button one for a completed session, a \<open>terminated\<close> message on
  the channel and a report answer with \<open>terminated\<close> set one each for a terminated session
  (and they set the flag); every answered request calls \<open>onComplete\<close> with the
  \<open>wasTerminated\<close> of its own trigger.
\<close>

theorem every_trigger_issues_request:
  "endRequests (step parse ClickEnd s) = endRequests s @ [False] \<and>
   (parse txt = Some data \<and> get_prop data ''type'' = Inr (Some (JStr ''terminated'')) \<longrightarrow>
      endRequests (step parse (WsMessage (Text txt)) s) = endRequests s @ [True] \<and>
      terminated (step parse (WsMessage (Text txt)) s)) \<and>
   (get_prop result ''terminated'' = Inr tm \<and> truthy tm \<longrightarrow>
      endRequests (step parse (ReportResponse eventType (Some result)) s) = endRequests s @ [True] \<and>
      terminated (step parse (ReportResponse eventType (Some result)) s)) \<and>
   completions (step parse (EndResponse wasTerminated ok) s) = completions s @ [wasTerminated]"
proof -
  have a: "endRequests (step parse ClickEnd s) = endRequests s @ [False]"
    by (simp add: handleInterviewEnd_def cleanup_def)
  have b: "endRequests (step parse (WsMessage (Text txt)) s) = endRequests s @ [True] \<and>
      terminated (step parse (WsMessage (Text txt)) s)"
    if "parse txt = Some data" "get_prop data ''type'' = Inr (Some (JStr ''terminated''))"
  proof -
    from that(2) obtain kvs where "data = JObj kvs"
      using get_prop_Some_obj by blast
    with that show ?thesis
      by (simp add: handler_defs)
  qed
  have c: "endRequests (step parse (ReportResponse eventType (Some result)) s) = endRequests s @ [True] \<and>
      terminated (step parse (ReportResponse eventType (Some result)) s)"
    if "get_prop result ''terminated'' = Inr tm" "truthy tm"
  proof -
    from that obtain kvs where "result = JObj kvs"
      by (cases tm) (auto dest: get_prop_Some_obj)
    with that show ?thesis
      by (simp add: reportCheating_settled_def handleInterviewEnd_def cleanup_def Let_def)
  qed
  have d: "completions (step parse (EndResponse wasTerminated ok) s) = completions s @ [wasTerminated]"
    by (simp add: endInterview_settled_def log_to_def)
  from a b c d show ?thesis by blast
qed

theorem every_trigger_issues_request_witness:
  "parse_example ''{\"type\":\"terminated\",\"strikes\":2}''
     = Some (JObj [(''type'', JStr ''terminated''), (''strikes'', JNum 2)]) \<and>
   get_prop (JObj [(''type'', JStr ''terminated''), (''strikes'', JNum 2)]) ''type''
     = Inr (Some (JStr ''terminated'')) \<and>
   get_prop (JObj [(''strikes'', JNum 2), (''terminated'', JBool True)]) ''terminated''
     = Inr (Some (JBool True)) \<and>
   truthy (Some (JBool True)) \<and>
   endRequests (step parse_example ClickEnd terminated_state)
     = endRequests terminated_state @ [False] \<and>
   endRequests (step parse_example
       (WsMessage (Text ''{\"type\":\"terminated\",\"strikes\":2}'')) terminated_state)
     = endRequests terminated_state @ [True] \<and>
   endRequests (step parse_example
       (ReportResponse ''window_blur''
          (Some (JObj [(''strikes'', JNum 2), (''terminated'', JBool True)]))) terminated_state)
     = endRequests terminated_state @ [True] \<and>
   completions (step parse_example (EndResponse True True) terminated_state)
     = completions terminated_state @ [True]"
proof -
  have h1: "parse_example ''{\"type\":\"terminated\",\"strikes\":2}''
     = Some (JObj [(''type'', JStr ''terminated''), (''strikes'', JNum 2)])"
    by (simp add: parse_example_def)
  have h2: "get_prop (JObj [(''type'', JStr ''terminated''), (''strikes'', JNum 2)]) ''type''
     = Inr (Some (JStr ''terminated''))"
    by simp
  have h3: "get_prop (JObj [(''strikes'', JNum 2), (''terminated'', JBool True)]) ''terminated''
     = Inr (Some (JBool True))"
    by simp
  have h4: "truthy (Some (JBool True))"
    by simp
  show ?thesis
    using h1 h2 h3 h4
      every_trigger_issues_request [of parse_example terminated_state
        "''{\"type\":\"terminated\",\"strikes\":2}''"
        "JObj [(''type'', JStr ''terminated''), (''strikes'', JNum 2)]"
        "JObj [(''strikes'', JNum 2), (''terminated'', JBool True)]" "Some (JBool True)"
        "''window_blur''" True True]
    by blast
qed

section \<open>Captured frames and a socket that is not open\<close>

text \<open>
  C3, as the claim states it, fails: there is no queue and no warning. After the connection
  is lost the capture graph still delivers buffers, and the handler leaves the state
  exactly as it was: the frame is not transmitted, not kept anywhere and nothing is logged.
\<close>

theorem frame_queued_counterexample:
  "enabled lost_connection (AudioProcess 0 silence) \<and>
   step parse_example (AudioProcess 0 silence) lost_connection = lost_connection"
  by (simp add: lost_connection_def silence_def handler_defs example_defs)

text \<open>
  C3, amended. A captured frame offered while there is no socket or the socket is not
  \<open>OPEN\<close> is discarded: the handler returns with the state unchanged (nothing transmitted,
  queued or logged, and capture is not held up). A frame offered while the socket is
  \<open>OPEN\<close> is handed to it at once.
\<close>

theorem frame_dropped_unless_open:
  "((wsRef s = None \<or> ready_is s (\<lambda>r. r \<noteq> OPEN)) \<longrightarrow>
      step parse (AudioProcess i inputBuffer) s = s) \<and>
   (wsRef s = Some ws \<and> readyState ws = OPEN \<and> ab_channels inputBuffer \<noteq> [] \<longrightarrow>
      step parse (AudioProcess i inputBuffer) s =
        s\<lparr>wsRef := Some (ws\<lparr>transmitted :=
              transmitted ws @ [WBinary (hd (ab_channels inputBuffer))]\<rparr>)\<rparr>)"
  by (auto simp: onaudioprocess_def getChannelData_def sendAudio_def settle_def ready_is_def
        hd_conv_nth split: option.splits)

theorem frame_dropped_unless_open_witness:
  "(wsRef lost_connection = None \<or> ready_is lost_connection (\<lambda>r. r \<noteq> OPEN)) \<and>
   step parse_example (AudioProcess 0 silence) lost_connection = lost_connection \<and>
   wsRef connected_state = Some \<lparr>readyState = OPEN, transmitted = []\<rparr> \<and>
   readyState \<lparr>readyState = OPEN, transmitted = []\<rparr> = OPEN \<and>
   ab_channels silence \<noteq> [] \<and>
   step parse_example (AudioProcess 0 silence) connected_state =
     connected_state\<lparr>wsRef := Some (\<lparr>readyState = OPEN, transmitted = []\<rparr>\<lparr>transmitted :=
        transmitted \<lparr>readyState = OPEN, transmitted = []\<rparr> @ [WBinary (hd (ab_channels silence))]\<rparr>)\<rparr>"
proof -
  have h1: "wsRef lost_connection = None \<or> ready_is lost_connection (\<lambda>r. r \<noteq> OPEN)"
    by (simp add: lost_connection_def handler_defs example_defs)
  have h2: "wsRef connected_state = Some \<lparr>readyState = OPEN, transmitted = []\<rparr>"
    by (simp add: connected_state_def handler_defs example_defs)
  have h3: "readyState \<lparr>readyState = OPEN, transmitted = []\<rparr> = OPEN"
    by simp
  have h4: "ab_channels silence \<noteq> []"
    by (simp add: silence_def)
  show ?thesis
    using h1 h2 h3 h4
      frame_dropped_unless_open [of lost_connection parse_example 0 silence]
      frame_dropped_unless_open [of connected_state parse_example 0 silence
        "\<lparr>readyState = OPEN, transmitted = []\<rparr>"]
    by blast
qed

section \<open>Face presence\<close>

lemma detectFace_emits_only:
  assumes "reports (detectFace_detected outcome now now' s) \<noteq> reports s"
  shows "(outcome = Faces 0 \<and> now - lastFaceDetected s > 3000 \<and>
          lastFaceDetected (detectFace_detected outcome now now' s) = now') \<or>
         (\<exists>n>1. outcome = Faces n)"
  using assms
  by (auto simp: detectFace_detected_def handleCheatingDetection_def log_to_def Let_def
      split: if_splits face_outcome.splits)

text \<open>
  C5. The branch for several faces does not refresh \<open>lastFaceDetectedRef\<close>, as the branch
  for one face does. Polls every two seconds that see one face, then two faces, then none
  report \<open>no_face\<close> on the third poll with a duration of 4000 ms, two seconds after faces
  were last detected.
\<close>

theorem no_face_two_seconds_after_faces:
  "map event_type (reports (run parse_example one_two_none (mount 0 DetectorReady)))
     = [''multiple_faces'', ''no_face''] \<and>
   details (last (reports (run parse_example one_two_none (mount 0 DetectorReady))))
     = [(''message'', JStr ''Face not visible''), (''duration'', JNum 4000)]"
  by (simp add: one_two_none_def mount_def handler_defs)

section \<open>Conversion of inbound PCM16\<close>

lemma convert_loop_length: "length (convert_loop i pcm out) = length out"
proof (induction i pcm out rule: convert_loop.induct)
  case (1 i pcm out)
  show ?case
  proof (cases "i < length pcm")
    case True
    with 1 show ?thesis by (subst convert_loop.simps) simp
  next
    case False
    then show ?thesis by (subst convert_loop.simps) simp
  qed
qed

lemma convert_loop_nth:
  "length out = length pcm \<Longrightarrow> j < length pcm \<Longrightarrow>
   convert_loop i pcm out ! j =
     (if i \<le> j then real_of_int (sint (pcm ! j)) / 32768 else out ! j)"
proof (induction i pcm out rule: convert_loop.induct)
  case (1 i pcm out)
  show ?case
  proof (cases "i < length pcm")
    case True
    have "convert_loop i pcm out ! j =
          convert_loop (i + 1) pcm (out[i := real_of_int (sint (pcm ! i)) / 32768]) ! j"
      using True by (subst convert_loop.simps) simp
    also have "\<dots> = (if i + 1 \<le> j then real_of_int (sint (pcm ! j)) / 32768
                     else (out[i := real_of_int (sint (pcm ! i)) / 32768]) ! j)"
      using 1 True by simp
    also have "\<dots> = (if i \<le> j then real_of_int (sint (pcm ! j)) / 32768 else out ! j)"
      using "1.prems" True by (cases "i = j") auto
    finally show ?thesis .
  next
    case False
    with "1.prems" show ?thesis by (subst convert_loop.simps) simp
  qed
qed

lemma pcm16_to_float32_map:
  "pcm16_to_float32 pcm = map (\<lambda>x. real_of_int (sint x) / 32768) pcm"
  by (rule nth_equalityI)
     (simp_all add: pcm16_to_float32_def convert_loop_length convert_loop_nth)

lemma int16_pairs_length: "length (int16_pairs bs) = length bs div 2"
  by (induction bs rule: int16_pairs.induct) simp_all

lemma sample_range:
  fixes x :: int16
  shows "- 1 \<le> real_of_int (sint x) / 32768 \<and> real_of_int (sint x) / 32768 < 1"
proof -
  have "- 32768 \<le> sint x" "sint x < 32768"
    using sint_ge [of x] sint_lt [of x] by simp_all
  then have "real_of_int (- 32768) \<le> real_of_int (sint x)"
    "real_of_int (sint x) < real_of_int 32768"
    by (simp_all only: of_int_le_iff of_int_less_iff)
  then show ?thesis by (simp del: of_int_sint)
qed

text \<open>
  C9. A payload of \<open>2n\<close> bytes is viewed as \<open>n\<close> 16-bit samples and converted to \<open>n\<close>
  floats, the \<open>i\<close>-th being the \<open>i\<close>-th signed sample over 32768, which lies in \<open>[-1, 1)\<close>;
  for \<open>n > 0\<close> these are the samples \<open>playAudio\<close> schedules.
\<close>

theorem pcm16_conversion:
  assumes "length arrayBuffer = 2 * n"
  shows "\<exists>pcm16Data. Int16Array arrayBuffer = Inr pcm16Data \<and> length pcm16Data = n \<and>
           length (pcm16_to_float32 pcm16Data) = n \<and>
           (\<forall>i < n. pcm16_to_float32 pcm16Data ! i = real_of_int (sint (pcm16Data ! i)) / 32768 \<and>
                    - 1 \<le> pcm16_to_float32 pcm16Data ! i \<and> pcm16_to_float32 pcm16Data ! i < 1) \<and>
           (0 < n \<longrightarrow> scheduled (playAudio arrayBuffer currentTime s) =
              scheduled s @ [\<lparr>startTime = max currentTime (nextStartTime s),
                              samples = pcm16_to_float32 pcm16Data\<rparr>])"
proof -
  have ev: "even (length arrayBuffer)" using assms by simp
  have len: "length (int16_pairs arrayBuffer) = n"
    using assms by (simp add: int16_pairs_length)
  have A: "Int16Array arrayBuffer = Inr (int16_pairs arrayBuffer)"
    using ev by (simp add: Int16Array_def)
  have B: "length (pcm16_to_float32 (int16_pairs arrayBuffer)) = n"
    using len by (simp add: pcm16_to_float32_map)
  have C: "\<forall>i < n. pcm16_to_float32 (int16_pairs arrayBuffer) ! i
                 = real_of_int (sint (int16_pairs arrayBuffer ! i)) / 32768 \<and>
            - 1 \<le> pcm16_to_float32 (int16_pairs arrayBuffer) ! i \<and>
            pcm16_to_float32 (int16_pairs arrayBuffer) ! i < 1"
    using len sample_range by (simp add: pcm16_to_float32_map)
  have D: "0 < n \<longrightarrow> scheduled (playAudio arrayBuffer currentTime s) =
              scheduled s @ [\<lparr>startTime = max currentTime (nextStartTime s),
                              samples = pcm16_to_float32 (int16_pairs arrayBuffer)\<rparr>]"
  proof
    assume "0 < n"
    with B have "length (pcm16_to_float32 (int16_pairs arrayBuffer)) \<noteq> 0" by simp
    with A show "scheduled (playAudio arrayBuffer currentTime s) =
              scheduled s @ [\<lparr>startTime = max currentTime (nextStartTime s),
                              samples = pcm16_to_float32 (int16_pairs arrayBuffer)\<rparr>]"
      by (simp add: playAudio_def Let_def)
  qed
  from A len B C D show ?thesis by blast
qed

theorem pcm16_conversion_witness:
  "length [0x00, 0x80, 0xFF, 0x7F :: byte] = 2 * 2 \<and>
   Int16Array [0x00, 0x80, 0xFF, 0x7F] = Inr [0x8000, 0x7FFF] \<and>
   pcm16_to_float32 [0x8000, 0x7FFF] = [- 1, 32767 / 32768] \<and>
   scheduled (playAudio [0x00, 0x80, 0xFF, 0x7F] 1 (mount 0 DetectorReady))
     = [\<lparr>startTime = 1, samples = [- 1, 32767 / 32768]\<rparr>]"
proof -
  have h: "length [0x00, 0x80, 0xFF, 0x7F :: byte] = 2 * 2"
    by simp
  have v: "Int16Array [0x00, 0x80, 0xFF, 0x7F] = Inr [0x8000, 0x7FFF]"
    by (simp add: Int16Array_def word_cat_eq)
  from pcm16_conversion [OF h, of 1 "mount 0 DetectorReady"] v
  have "length (pcm16_to_float32 [0x8000, 0x7FFF]) = 2"
    and "\<forall>i < 2. pcm16_to_float32 [0x8000, 0x7FFF] ! i
           = real_of_int (sint ([0x8000, 0x7FFF :: int16] ! i)) / 32768"
    and "scheduled (playAudio [0x00, 0x80, 0xFF, 0x7F] 1 (mount 0 DetectorReady))
           = scheduled (mount 0 DetectorReady) @
             [\<lparr>startTime = max 1 (nextStartTime (mount 0 DetectorReady)),
               samples = pcm16_to_float32 [0x8000, 0x7FFF]\<rparr>]"
    by auto
  moreover from this(1,2) have "pcm16_to_float32 [0x8000, 0x7FFF] = [- 1, 32767 / 32768]"
    by (intro nth_equalityI) (auto simp: less_Suc_eq numeral_2_eq_2)
  ultimately show ?thesis
    using h v by (simp add: mount_def)
qed


section \<open>Rounding to double precision\<close>

lemma rne_of_int [simp]: "rne (of_int m) = m"
  by (simp add: rne_def)

lemma rne_numeral [simp]: "rne (numeral n) = numeral n"
  using rne_of_int [of "numeral n"] by simp










lemma ulp_nonneg [simp]: "0 \<le> ulp x"
  by (simp add: ulp_def)

















section \<open>Playback scheduling\<close>













section \<open>Outbound audio frames\<close>


lemma close_transmitted [simp]: "transmitted (close w) = transmitted w"
  by (simp add: close_def)









section \<open>Connection loss\<close>

lemma closed_socket_step:
  assumes "wsRef s = Some w" "readyState w = CLOSED" "enabled s e"
  shows "wsRef (step parse e s) = Some w"
  using assms
  by (cases e)
     (auto simp: handler_defs close_def ready_is_def
       split: option.splits sum.splits inbound.splits face_outcome.splits)

lemma closed_socket_run:
  "wsRef s = Some w \<Longrightarrow> readyState w = CLOSED \<Longrightarrow> feasible parse s evs \<Longrightarrow>
   wsRef (run parse evs s) = Some w"
  by (induction evs arbitrary: s) (simp_all add: closed_socket_step)

text \<open>
  C6, as the claim states it, fails: \<open>onDisconnected\<close> only sets the status. After the
  connection is lost the page still records, the capture graph is still connected in a
  running context (the browser goes on delivering buffers), and \<open>playAudio\<close> still
  schedules audio that was received before the loss.
\<close>

theorem capture_stops_counterexample:
  "status lost_connection = StDisconnected \<and> isRecording lost_connection \<and>
   enabled lost_connection (AudioProcess 0 silence) \<and>
   scheduled (step parse_example (AudioReady [0, 0] 1) lost_connection)
     = [\<lparr>startTime = 1, samples = [0]\<rparr>]"
  by (simp add: lost_connection_def silence_def handler_defs example_defs Int16Array_def
        pcm16_to_float32_map)

text \<open>
  C6, amended. When the socket closes, the status becomes disconnected and, apart from the
  socket's state and a console line, nothing else of the page changes: the loss stops
  neither audio capture nor playback scheduling. Whatever events follow, the page keeps
  that same closed socket with exactly the messages transmitted before: no captured frame
  is transmitted any more and no new connection takes its place.
\<close>

theorem connection_loss:
  assumes "wsRef s = Some ws" and "feasible parse (step parse (WsClose code) s) evs"
  shows "step parse (WsClose code) s =
           s\<lparr>status := StDisconnected, wsRef := Some (ws\<lparr>readyState := CLOSED\<rparr>),
             console := console s @ [LogWsClosed code]\<rparr> \<and>
         wsRef (run parse evs (step parse (WsClose code) s)) = Some (ws\<lparr>readyState := CLOSED\<rparr>)"
proof -
  have 1: "step parse (WsClose code) s =
           s\<lparr>status := StDisconnected, wsRef := Some (ws\<lparr>readyState := CLOSED\<rparr>),
             console := console s @ [LogWsClosed code]\<rparr>"
    using assms(1)
    by (simp add: settle_def ws_onclose_def call_opt_def page_callbacks_def log_to_def
          set_readyState_def Let_def)
  then have "wsRef (step parse (WsClose code) s) = Some (ws\<lparr>readyState := CLOSED\<rparr>)"
    by simp
  then have 2: "wsRef (run parse evs (step parse (WsClose code) s)) = Some (ws\<lparr>readyState := CLOSED\<rparr>)"
    using assms(2) by (intro closed_socket_run) simp_all
  from 1 2 show ?thesis by blast
qed

theorem connection_loss_witness:
  "wsRef connected_state = Some \<lparr>readyState = OPEN, transmitted = []\<rparr> \<and>
   feasible parse_example (step parse_example (WsClose 1006) connected_state) after_loss \<and>
   step parse_example (WsClose 1006) connected_state =
     connected_state\<lparr>status := StDisconnected,
       wsRef := Some (\<lparr>readyState = OPEN, transmitted = []\<rparr>\<lparr>readyState := CLOSED\<rparr>),
       console := console connected_state @ [LogWsClosed 1006]\<rparr> \<and>
   wsRef (run parse_example after_loss (step parse_example (WsClose 1006) connected_state))
     = Some (\<lparr>readyState = OPEN, transmitted = []\<rparr>\<lparr>readyState := CLOSED\<rparr>)"
proof -
  have h1: "wsRef connected_state = Some \<lparr>readyState = OPEN, transmitted = []\<rparr>"
    by (simp add: connected_state_def handler_defs example_defs)
  have h2: "feasible parse_example (step parse_example (WsClose 1006) connected_state) after_loss"
    by (simp add: connected_state_def after_loss_def silence_def handler_defs example_defs
          Int16Array_def)
  show ?thesis
    using h1 h2 connection_loss [OF h1 h2] by blast
qed

end
